theory Spec2Isabelle
  imports Main
begin

section \<open>The header \<open>new21.h\<close>, as text\<close>

text \<open>
  The source is a C header of 166 lines. It is embedded verbatim, one string per line,
  so that every statement below is about the file as it is written.
\<close>

definition new21_h :: "string list" where
  "new21_h = [
    ''    //############################### NEW 2.1 #################################'',
    ''    extern CL_API_ENTRY cl_int CL_API_CALL'',
    ''    clSetDefaultDeviceCommandQueue(cl_context           /* context */,'',
    ''                                   cl_device_id         /* device */,'',
    ''                                   cl_command_queue     /* command_queue */) CL_API_SUFFIX__VERSION_2_1;'',
    '''',
    ''    //############################### NEW 2.1 #################################'',
    ''    extern CL_API_ENTRY cl_int CL_API_CALL'',
    ''    clGetDeviceAndHostTimer(cl_device_id    /* device */,'',
    ''                            cl_ulong*       /* device_timestamp */,'',
    ''                            cl_ulong*       /* host_timestamp */) CL_API_SUFFIX__VERSION_2_1;'',
    '''',
    ''    //############################### NEW 2.1 #################################'',
    ''    extern CL_API_ENTRY cl_int CL_API_CALL'',
    ''    clGetHostTimer(cl_device_id /* device */,'',
    ''                   cl_ulong *   /* host_timestamp */)  CL_API_SUFFIX__VERSION_2_1;'',
    '''',
    ''    //############################### NEW 2.0 #################################'',
    ''    extern CL_API_ENTRY cl_command_queue CL_API_CALL'',
    ''    clCreateCommandQueueWithProperties(cl_context               /* context */,'',
    ''                                       cl_device_id             /* device */,'',
    ''                                       const cl_queue_properties *    /* properties */,'',
    ''                                       cl_int *                 /* errcode_ret */) CL_API_SUFFIX__VERSION_2_0;'',
    '''',
    '''',
    ''    //############################### NEW 2.0 #################################'',
    ''    extern CL_API_ENTRY cl_mem CL_API_CALL'',
    ''    clCreatePipe(cl_context                 /* context */,'',
    ''                 cl_mem_flags               /* flags */,'',
    ''                 cl_uint                    /* pipe_packet_size */,'',
    ''                 cl_uint                    /* pipe_max_packets */,'',
    ''                 const cl_pipe_properties * /* properties */,'',
    ''                 cl_int *                   /* errcode_ret */) CL_API_SUFFIX__VERSION_2_0;'',
    '''',
    '''',
    ''    //############################### NEW 2.0 #################################'',
    ''    extern CL_API_ENTRY cl_int CL_API_CALL'',
    ''    clGetPipeInfo(cl_mem           /* pipe */,'',
    ''                  cl_pipe_info     /* param_name */,'',
    ''                  size_t           /* param_value_size */,'',
    ''                  void *           /* param_value */,'',
    ''                  size_t *         /* param_value_size_ret */) CL_API_SUFFIX__VERSION_2_0;'',
    '''',
    ''    // SVM Allocation APIs '',
    ''    //############################### NEW 2.0 #################################'',
    ''    extern CL_API_ENTRY void * CL_API_CALL'',
    ''    clSVMAlloc(cl_context       /* context */,'',
    ''               cl_svm_mem_flags /* flags */,'',
    ''               size_t           /* size */,'',
    ''               cl_uint          /* alignment */) CL_API_SUFFIX__VERSION_2_0;'',
    '''',
    ''    //############################### NEW 2.0 #################################'',
    ''    extern CL_API_ENTRY void CL_API_CALL'',
    ''    clSVMFree(cl_context        /* context */,'',
    ''              void *            /* svm_pointer */) CL_API_SUFFIX__VERSION_2_0;'',
    '''',
    '''',
    ''    //############################### NEW 2.0 #################################'',
    ''    extern CL_API_ENTRY cl_sampler CL_API_CALL'',
    ''    clCreateSamplerWithProperties(cl_context                     /* context */,'',
    ''                                  const cl_sampler_properties *  /* normalized_coords */,'',
    ''                                  cl_int *                       /* errcode_ret */) CL_API_SUFFIX__VERSION_2_0;'',
    '''',
    ''    //############################### NEW 2.1 #################################'',
    ''    extern CL_API_ENTRY cl_program CL_API_CALL'',
    ''    clCreateProgramWithIL(cl_context    /* context */,'',
    ''                         const void*    /* il */,'',
    ''                         size_t         /* length */,'',
    ''                         cl_int*        /* errcode_ret */) CL_API_SUFFIX__VERSION_2_1;'',
    '''',
    ''    //############################### NEW 2.1 #################################'',
    ''    extern CL_API_ENTRY cl_kernel CL_API_CALL'',
    ''    clCloneKernel(cl_kernel     /* source_kernel */,'',
    ''                  cl_int*       /* errcode_ret */) CL_API_SUFFIX__VERSION_2_1;'',
    '''',
    ''    //############################### NEW 2.0 #################################'',
    ''    extern CL_API_ENTRY cl_int CL_API_CALL'',
    ''    clSetKernelArgSVMPointer(cl_kernel    /* kernel */,'',
    ''                             cl_uint      /* arg_index */,'',
    ''                             const void * /* arg_value */) CL_API_SUFFIX__VERSION_2_0;'',
    '''',
    ''    //############################### NEW 2.0 #################################'',
    ''    extern CL_API_ENTRY cl_int CL_API_CALL'',
    ''    clSetKernelExecInfo(cl_kernel            /* kernel */,'',
    ''                        cl_kernel_exec_info  /* param_name */,'',
    ''                        size_t               /* param_value_size */,'',
    ''                        const void *         /* param_value */) CL_API_SUFFIX__VERSION_2_0;'',
    '''',
    '''',
    ''    //############################### NEW 2.1 #################################'',
    ''    extern CL_API_ENTRY cl_int CL_API_CALL'',
    ''    clGetKernelSubGroupInfo(cl_kernel                   /* kernel */,'',
    ''                            cl_device_id                /* device */,'',
    ''                            cl_kernel_sub_group_info    /* param_name */,'',
    ''                            size_t                      /* input_value_size */,'',
    ''                            const void*                 /*input_value */,'',
    ''                            size_t                      /* param_value_size */,'',
    ''                            void*                       /* param_value */,'',
    ''                            size_t*                     /* param_value_size_ret */ ) CL_API_SUFFIX__VERSION_2_1;'',
    '''',
    '''',
    ''    //############################### NEW 2.0 #################################'',
    ''    extern CL_API_ENTRY cl_int CL_API_CALL'',
    ''    clEnqueueSVMFree(cl_command_queue  /* command_queue */,'',
    ''                     cl_uint           /* num_svm_pointers */,'',
    ''                     void *[]          /* svm_pointers[] */,'',
    ''                     void (CL_CALLBACK * /*pfn_free_func*/)(cl_command_queue /* queue */,'',
    ''                                                            cl_uint          /* num_svm_pointers */,'',
    ''                                                            void *[]         /* svm_pointers[] */,'',
    ''                                                            void *           /* user_data */),'',
    ''                     void *            /* user_data */,'',
    ''                     cl_uint           /* num_events_in_wait_list */,'',
    ''                     const cl_event *  /* event_wait_list */,'',
    ''                     cl_event *        /* event */) CL_API_SUFFIX__VERSION_2_0;'',
    '''',
    ''    //############################### NEW 2.0 #################################'',
    ''    extern CL_API_ENTRY cl_int CL_API_CALL'',
    ''    clEnqueueSVMMemcpy(cl_command_queue  /* command_queue */,'',
    ''                       cl_bool           /* blocking_copy */,'',
    ''                       void *            /* dst_ptr */,'',
    ''                       const void *      /* src_ptr */,'',
    ''                       size_t            /* size */,'',
    ''                       cl_uint           /* num_events_in_wait_list */,'',
    ''                       const cl_event *  /* event_wait_list */,'',
    ''                       cl_event *        /* event */) CL_API_SUFFIX__VERSION_2_0;'',
    '''',
    ''    //############################### NEW 2.0 #################################'',
    ''    extern CL_API_ENTRY cl_int CL_API_CALL'',
    ''    clEnqueueSVMMemFill(cl_command_queue  /* command_queue */,'',
    ''                        void *            /* svm_ptr */,'',
    ''                        const void *      /* pattern */,'',
    ''                        size_t            /* pattern_size */,'',
    ''                        size_t            /* size */,'',
    ''                        cl_uint           /* num_events_in_wait_list */,'',
    ''                        const cl_event *  /* event_wait_list */,'',
    ''                        cl_event *        /* event */) CL_API_SUFFIX__VERSION_2_0;'',
    '''',
    ''    //############################### NEW 2.0 #################################'',
    ''    extern CL_API_ENTRY cl_int CL_API_CALL'',
    ''    clEnqueueSVMMap(cl_command_queue  /* command_queue */,'',
    ''                    cl_bool           /* blocking_map */,'',
    ''                    cl_map_flags      /* flags */,'',
    ''                    void *            /* svm_ptr */,'',
    ''                    size_t            /* size */,'',
    ''                    cl_uint           /* num_events_in_wait_list */,'',
    ''                    const cl_event *  /* event_wait_list */,'',
    ''                    cl_event *        /* event */) CL_API_SUFFIX__VERSION_2_0;'',
    '''',
    ''    //############################### NEW 2.0 #################################'',
    ''    extern CL_API_ENTRY cl_int CL_API_CALL'',
    ''    clEnqueueSVMUnmap(cl_command_queue  /* command_queue */,'',
    ''                      void *            /* svm_ptr */,'',
    ''                      cl_uint           /* num_events_in_wait_list */,'',
    ''                      const cl_event *  /* event_wait_list */,'',
    ''                      cl_event *        /* event */) CL_API_SUFFIX__VERSION_2_0;'',
    '''',
    ''    //############################### NEW 2.1 #################################'',
    ''    extern CL_API_ENTRY cl_int CL_API_CALL'',
    ''    clEnqueueSVMMigrateMem(cl_command_queue         /* command_queue */,'',
    ''                           cl_uint                  /* num_svm_pointers */,'',
    ''                           const void **            /* svm_pointers */,'',
    ''                           const size_t *           /* sizes */,'',
    ''                           cl_mem_migration_flags   /* flags */,'',
    ''                           cl_uint                  /* num_events_in_wait_list */,'',
    ''                           const cl_event *         /* event_wait_list */,'',
    ''                           cl_event *               /* event */) CL_API_SUFFIX__VERSION_2_1;''
  ]"

definition newline :: char where
  "newline = CHR 0x0A"

definition file_text :: "string list \<Rightarrow> string" where
  "file_text ls = concat (map (\<lambda>l. l @ [newline]) ls)"

section \<open>Lexical structure\<close>

text \<open>
  A C translation unit is read as a stream of tokens. Words are maximal runs of letters,
  digits and underscores; a block comment \<open>/* ... */\<close> and a line comment \<open>// ...\<close>
  are kept as tokens of their own (the header writes every parameter name inside a block
  comment); every other character that is not white space is a punctuation token.
\<close>

datatype token =
    Word string
  | Punct char
  | Comment string
  | LineComment string
  | Unterminated

datatype mode =
    Code
  | InWord string
  | Slash
  | InLine string
  | InBlock string
  | InBlockStar string

definition is_space :: "char \<Rightarrow> bool" where
  "is_space c = (c = CHR '' '' \<or> c = newline \<or> c = CHR 0x09 \<or> c = CHR 0x0D)"

definition is_word_char :: "char \<Rightarrow> bool" where
  "is_word_char c =
     (let n = (of_char c :: nat)
      in (97 \<le> n \<and> n \<le> 122) \<or> (65 \<le> n \<and> n \<le> 90) \<or> (48 \<le> n \<and> n \<le> 57) \<or> n = 95)"

definition trim :: "string \<Rightarrow> string" where
  "trim s = rev (dropWhile is_space (rev (dropWhile is_space s)))"

definition start :: "char \<Rightarrow> token list \<times> mode" where
  "start c =
     (if is_space c then ([], Code)
      else if c = CHR ''/'' then ([], Slash)
      else if is_word_char c then ([], InWord [c])
      else ([Punct c], Code))"

fun step :: "mode \<Rightarrow> char \<Rightarrow> token list \<times> mode" where
  "step Code c = start c"
| "step (InWord w) c =
     (if is_word_char c then ([], InWord (w @ [c]))
      else (Word w # fst (start c), snd (start c)))"
| "step Slash c =
     (if c = CHR ''/'' then ([], InLine [])
      else if c = CHR ''*'' then ([], InBlock [])
      else (Punct (CHR ''/'') # fst (start c), snd (start c)))"
| "step (InLine s) c =
     (if c = newline then ([LineComment (trim s)], Code) else ([], InLine (s @ [c])))"
| "step (InBlock s) c =
     (if c = CHR ''*'' then ([], InBlockStar s) else ([], InBlock (s @ [c])))"
| "step (InBlockStar s) c =
     (if c = CHR ''/'' then ([Comment (trim s)], Code)
      else if c = CHR ''*'' then ([], InBlockStar (s @ [CHR ''*'']))
      else ([], InBlock (s @ [CHR ''*'', c])))"

fun finish :: "mode \<Rightarrow> token list" where
  "finish Code = []"
| "finish (InWord w) = [Word w]"
| "finish Slash = [Punct (CHR ''/'')]"
| "finish (InLine s) = [LineComment (trim s)]"
| "finish (InBlock s) = [Unterminated]"
| "finish (InBlockStar s) = [Unterminated]"

fun run :: "mode \<Rightarrow> string \<Rightarrow> token list" where
  "run m [] = finish m"
| "run m (c # cs) = fst (step m c) @ run (snd (step m c)) cs"

definition tokenize :: "string list \<Rightarrow> token list" where
  "tokenize ls = run Code (file_text ls)"

fun is_line_comment :: "token \<Rightarrow> bool" where
  "is_line_comment (LineComment s) = True"
| "is_line_comment t = False"

definition code_tokens :: "token list \<Rightarrow> token list" where
  "code_tokens ts = filter (\<lambda>t. \<not> is_line_comment t) ts"


section \<open>Declarations\<close>

text \<open>
  The abstract syntax of what the header contains. A type is written as in the source:
  an optional leading \<open>const\<close>, a base name and a sequence of declarators, \<open>*\<close> or
  \<open>[]\<close>. A parameter is a type followed by its name in a block comment; the one
  callback parameter is a pointer to a function, with its calling-convention macro, its
  commented name and its own parameters. A declaration has a return type, a name, its
  parameters and the version macro that closes the signature.
\<close>

datatype deriv = Star | Brackets

datatype ctype = CType (is_const: bool) (base: string) (derivs: "deriv list")

datatype param =
    Plain ctype string
  | FunPtr ctype string string "(ctype \<times> string) list"

record decl =
  ret_type :: ctype
  fname :: string
  params :: "param list"
  version_suffix :: string

abbreviation val :: "string \<Rightarrow> ctype" where
  "val b \<equiv> CType False b []"

abbreviation ptr :: "string \<Rightarrow> ctype" where
  "ptr b \<equiv> CType False b [Star]"

abbreviation cptr :: "string \<Rightarrow> ctype" where
  "cptr b \<equiv> CType True b [Star]"

definition clSetDefaultDeviceCommandQueue :: decl where
  "clSetDefaultDeviceCommandQueue =
     \<lparr>ret_type = val ''cl_int'', fname = ''clSetDefaultDeviceCommandQueue'',
      params = [Plain (val ''cl_context'') ''context'',
                Plain (val ''cl_device_id'') ''device'',
                Plain (val ''cl_command_queue'') ''command_queue''],
      version_suffix = ''CL_API_SUFFIX__VERSION_2_1''\<rparr>"

definition clGetDeviceAndHostTimer :: decl where
  "clGetDeviceAndHostTimer =
     \<lparr>ret_type = val ''cl_int'', fname = ''clGetDeviceAndHostTimer'',
      params = [Plain (val ''cl_device_id'') ''device'',
                Plain (ptr ''cl_ulong'') ''device_timestamp'',
                Plain (ptr ''cl_ulong'') ''host_timestamp''],
      version_suffix = ''CL_API_SUFFIX__VERSION_2_1''\<rparr>"

definition clGetHostTimer :: decl where
  "clGetHostTimer =
     \<lparr>ret_type = val ''cl_int'', fname = ''clGetHostTimer'',
      params = [Plain (val ''cl_device_id'') ''device'',
                Plain (ptr ''cl_ulong'') ''host_timestamp''],
      version_suffix = ''CL_API_SUFFIX__VERSION_2_1''\<rparr>"

definition clCreateCommandQueueWithProperties :: decl where
  "clCreateCommandQueueWithProperties =
     \<lparr>ret_type = val ''cl_command_queue'', fname = ''clCreateCommandQueueWithProperties'',
      params = [Plain (val ''cl_context'') ''context'',
                Plain (val ''cl_device_id'') ''device'',
                Plain (cptr ''cl_queue_properties'') ''properties'',
                Plain (ptr ''cl_int'') ''errcode_ret''],
      version_suffix = ''CL_API_SUFFIX__VERSION_2_0''\<rparr>"

definition clCreatePipe :: decl where
  "clCreatePipe =
     \<lparr>ret_type = val ''cl_mem'', fname = ''clCreatePipe'',
      params = [Plain (val ''cl_context'') ''context'',
                Plain (val ''cl_mem_flags'') ''flags'',
                Plain (val ''cl_uint'') ''pipe_packet_size'',
                Plain (val ''cl_uint'') ''pipe_max_packets'',
                Plain (cptr ''cl_pipe_properties'') ''properties'',
                Plain (ptr ''cl_int'') ''errcode_ret''],
      version_suffix = ''CL_API_SUFFIX__VERSION_2_0''\<rparr>"

definition clGetPipeInfo :: decl where
  "clGetPipeInfo =
     \<lparr>ret_type = val ''cl_int'', fname = ''clGetPipeInfo'',
      params = [Plain (val ''cl_mem'') ''pipe'',
                Plain (val ''cl_pipe_info'') ''param_name'',
                Plain (val ''size_t'') ''param_value_size'',
                Plain (ptr ''void'') ''param_value'',
                Plain (ptr ''size_t'') ''param_value_size_ret''],
      version_suffix = ''CL_API_SUFFIX__VERSION_2_0''\<rparr>"

definition clSVMAlloc :: decl where
  "clSVMAlloc =
     \<lparr>ret_type = ptr ''void'', fname = ''clSVMAlloc'',
      params = [Plain (val ''cl_context'') ''context'',
                Plain (val ''cl_svm_mem_flags'') ''flags'',
                Plain (val ''size_t'') ''size'',
                Plain (val ''cl_uint'') ''alignment''],
      version_suffix = ''CL_API_SUFFIX__VERSION_2_0''\<rparr>"

definition clSVMFree :: decl where
  "clSVMFree =
     \<lparr>ret_type = val ''void'', fname = ''clSVMFree'',
      params = [Plain (val ''cl_context'') ''context'',
                Plain (ptr ''void'') ''svm_pointer''],
      version_suffix = ''CL_API_SUFFIX__VERSION_2_0''\<rparr>"

definition clCreateSamplerWithProperties :: decl where
  "clCreateSamplerWithProperties =
     \<lparr>ret_type = val ''cl_sampler'', fname = ''clCreateSamplerWithProperties'',
      params = [Plain (val ''cl_context'') ''context'',
                Plain (cptr ''cl_sampler_properties'') ''normalized_coords'',
                Plain (ptr ''cl_int'') ''errcode_ret''],
      version_suffix = ''CL_API_SUFFIX__VERSION_2_0''\<rparr>"

definition clCreateProgramWithIL :: decl where
  "clCreateProgramWithIL =
     \<lparr>ret_type = val ''cl_program'', fname = ''clCreateProgramWithIL'',
      params = [Plain (val ''cl_context'') ''context'',
                Plain (cptr ''void'') ''il'',
                Plain (val ''size_t'') ''length'',
                Plain (ptr ''cl_int'') ''errcode_ret''],
      version_suffix = ''CL_API_SUFFIX__VERSION_2_1''\<rparr>"

definition clCloneKernel :: decl where
  "clCloneKernel =
     \<lparr>ret_type = val ''cl_kernel'', fname = ''clCloneKernel'',
      params = [Plain (val ''cl_kernel'') ''source_kernel'',
                Plain (ptr ''cl_int'') ''errcode_ret''],
      version_suffix = ''CL_API_SUFFIX__VERSION_2_1''\<rparr>"

definition clSetKernelArgSVMPointer :: decl where
  "clSetKernelArgSVMPointer =
     \<lparr>ret_type = val ''cl_int'', fname = ''clSetKernelArgSVMPointer'',
      params = [Plain (val ''cl_kernel'') ''kernel'',
                Plain (val ''cl_uint'') ''arg_index'',
                Plain (cptr ''void'') ''arg_value''],
      version_suffix = ''CL_API_SUFFIX__VERSION_2_0''\<rparr>"

definition clSetKernelExecInfo :: decl where
  "clSetKernelExecInfo =
     \<lparr>ret_type = val ''cl_int'', fname = ''clSetKernelExecInfo'',
      params = [Plain (val ''cl_kernel'') ''kernel'',
                Plain (val ''cl_kernel_exec_info'') ''param_name'',
                Plain (val ''size_t'') ''param_value_size'',
                Plain (cptr ''void'') ''param_value''],
      version_suffix = ''CL_API_SUFFIX__VERSION_2_0''\<rparr>"

definition clGetKernelSubGroupInfo :: decl where
  "clGetKernelSubGroupInfo =
     \<lparr>ret_type = val ''cl_int'', fname = ''clGetKernelSubGroupInfo'',
      params = [Plain (val ''cl_kernel'') ''kernel'',
                Plain (val ''cl_device_id'') ''device'',
                Plain (val ''cl_kernel_sub_group_info'') ''param_name'',
                Plain (val ''size_t'') ''input_value_size'',
                Plain (cptr ''void'') ''input_value'',
                Plain (val ''size_t'') ''param_value_size'',
                Plain (ptr ''void'') ''param_value'',
                Plain (ptr ''size_t'') ''param_value_size_ret''],
      version_suffix = ''CL_API_SUFFIX__VERSION_2_1''\<rparr>"

definition clEnqueueSVMFree :: decl where
  "clEnqueueSVMFree =
     \<lparr>ret_type = val ''cl_int'', fname = ''clEnqueueSVMFree'',
      params = [Plain (val ''cl_command_queue'') ''command_queue'',
                Plain (val ''cl_uint'') ''num_svm_pointers'',
                Plain (CType False ''void'' [Star, Brackets]) ''svm_pointers[]'',
                FunPtr (val ''void'') ''CL_CALLBACK'' ''pfn_free_func''
                  [(val ''cl_command_queue'', ''queue''),
                   (val ''cl_uint'', ''num_svm_pointers''),
                   (CType False ''void'' [Star, Brackets], ''svm_pointers[]''),
                   (ptr ''void'', ''user_data'')],
                Plain (ptr ''void'') ''user_data'',
                Plain (val ''cl_uint'') ''num_events_in_wait_list'',
                Plain (cptr ''cl_event'') ''event_wait_list'',
                Plain (ptr ''cl_event'') ''event''],
      version_suffix = ''CL_API_SUFFIX__VERSION_2_0''\<rparr>"

definition clEnqueueSVMMemcpy :: decl where
  "clEnqueueSVMMemcpy =
     \<lparr>ret_type = val ''cl_int'', fname = ''clEnqueueSVMMemcpy'',
      params = [Plain (val ''cl_command_queue'') ''command_queue'',
                Plain (val ''cl_bool'') ''blocking_copy'',
                Plain (ptr ''void'') ''dst_ptr'',
                Plain (cptr ''void'') ''src_ptr'',
                Plain (val ''size_t'') ''size'',
                Plain (val ''cl_uint'') ''num_events_in_wait_list'',
                Plain (cptr ''cl_event'') ''event_wait_list'',
                Plain (ptr ''cl_event'') ''event''],
      version_suffix = ''CL_API_SUFFIX__VERSION_2_0''\<rparr>"

definition clEnqueueSVMMemFill :: decl where
  "clEnqueueSVMMemFill =
     \<lparr>ret_type = val ''cl_int'', fname = ''clEnqueueSVMMemFill'',
      params = [Plain (val ''cl_command_queue'') ''command_queue'',
                Plain (ptr ''void'') ''svm_ptr'',
                Plain (cptr ''void'') ''pattern'',
                Plain (val ''size_t'') ''pattern_size'',
                Plain (val ''size_t'') ''size'',
                Plain (val ''cl_uint'') ''num_events_in_wait_list'',
                Plain (cptr ''cl_event'') ''event_wait_list'',
                Plain (ptr ''cl_event'') ''event''],
      version_suffix = ''CL_API_SUFFIX__VERSION_2_0''\<rparr>"

definition clEnqueueSVMMap :: decl where
  "clEnqueueSVMMap =
     \<lparr>ret_type = val ''cl_int'', fname = ''clEnqueueSVMMap'',
      params = [Plain (val ''cl_command_queue'') ''command_queue'',
                Plain (val ''cl_bool'') ''blocking_map'',
                Plain (val ''cl_map_flags'') ''flags'',
                Plain (ptr ''void'') ''svm_ptr'',
                Plain (val ''size_t'') ''size'',
                Plain (val ''cl_uint'') ''num_events_in_wait_list'',
                Plain (cptr ''cl_event'') ''event_wait_list'',
                Plain (ptr ''cl_event'') ''event''],
      version_suffix = ''CL_API_SUFFIX__VERSION_2_0''\<rparr>"

definition clEnqueueSVMUnmap :: decl where
  "clEnqueueSVMUnmap =
     \<lparr>ret_type = val ''cl_int'', fname = ''clEnqueueSVMUnmap'',
      params = [Plain (val ''cl_command_queue'') ''command_queue'',
                Plain (ptr ''void'') ''svm_ptr'',
                Plain (val ''cl_uint'') ''num_events_in_wait_list'',
                Plain (cptr ''cl_event'') ''event_wait_list'',
                Plain (ptr ''cl_event'') ''event''],
      version_suffix = ''CL_API_SUFFIX__VERSION_2_0''\<rparr>"

definition clEnqueueSVMMigrateMem :: decl where
  "clEnqueueSVMMigrateMem =
     \<lparr>ret_type = val ''cl_int'', fname = ''clEnqueueSVMMigrateMem'',
      params = [Plain (val ''cl_command_queue'') ''command_queue'',
                Plain (val ''cl_uint'') ''num_svm_pointers'',
                Plain (CType True ''void'' [Star, Star]) ''svm_pointers'',
                Plain (cptr ''size_t'') ''sizes'',
                Plain (val ''cl_mem_migration_flags'') ''flags'',
                Plain (val ''cl_uint'') ''num_events_in_wait_list'',
                Plain (cptr ''cl_event'') ''event_wait_list'',
                Plain (ptr ''cl_event'') ''event''],
      version_suffix = ''CL_API_SUFFIX__VERSION_2_1''\<rparr>"

text \<open>The declarations, in the order of the file.\<close>

definition new21_decls :: "decl list" where
  "new21_decls =
     [clSetDefaultDeviceCommandQueue, clGetDeviceAndHostTimer, clGetHostTimer,
      clCreateCommandQueueWithProperties, clCreatePipe, clGetPipeInfo,
      clSVMAlloc, clSVMFree, clCreateSamplerWithProperties, clCreateProgramWithIL,
      clCloneKernel, clSetKernelArgSVMPointer, clSetKernelExecInfo,
      clGetKernelSubGroupInfo, clEnqueueSVMFree, clEnqueueSVMMemcpy,
      clEnqueueSVMMemFill, clEnqueueSVMMap, clEnqueueSVMUnmap, clEnqueueSVMMigrateMem]"

subsection \<open>The tokens of a declaration\<close>

text \<open>
  Every declaration of the header has the shape
  \<^verbatim>\<open>extern CL_API_ENTRY <type> CL_API_CALL <name>(<parameters>) <suffix>;\<close>
  and \<open>decl_tokens\<close> writes a declaration out in that shape, token by token.
\<close>

fun deriv_tokens :: "deriv \<Rightarrow> token list" where
  "deriv_tokens Star = [Punct (CHR ''*'')]"
| "deriv_tokens Brackets = [Punct (CHR ''[''), Punct (CHR '']'')]"

fun type_tokens :: "ctype \<Rightarrow> token list" where
  "type_tokens (CType c b ds) =
     (if c then [Word ''const''] else []) @ [Word b] @ concat (map deriv_tokens ds)"

fun commas :: "token list list \<Rightarrow> token list" where
  "commas [] = []"
| "commas [ts] = ts"
| "commas (ts # tss) = ts @ [Punct (CHR '','')] @ commas tss"

fun arg_tokens :: "ctype \<times> string \<Rightarrow> token list" where
  "arg_tokens (t, n) = type_tokens t @ [Comment n]"

fun param_tokens :: "param \<Rightarrow> token list" where
  "param_tokens (Plain t n) = arg_tokens (t, n)"
| "param_tokens (FunPtr r conv n args) =
     type_tokens r @ [Punct (CHR ''(''), Word conv, Punct (CHR ''*''), Comment n, Punct (CHR '')'')]
       @ [Punct (CHR ''('')] @ commas (map arg_tokens args) @ [Punct (CHR '')'')]"

definition decl_tokens :: "decl \<Rightarrow> token list" where
  "decl_tokens d =
     [Word ''extern'', Word ''CL_API_ENTRY''] @ type_tokens (ret_type d)
       @ [Word ''CL_API_CALL'', Word (fname d), Punct (CHR ''('')]
       @ commas (map param_tokens (params d))
       @ [Punct (CHR '')''), Word (version_suffix d), Punct (CHR '';'')]"


section \<open>What the claims speak about\<close>

text \<open>
  A file consists of the declarations \<open>ds\<close> when its tokens, line comments apart, are
  those of \<open>ds\<close> written out one after the other: nothing stands between, before or
  after the declarations.
\<close>

definition declares :: "string list \<Rightarrow> decl list \<Rightarrow> bool" where
  "declares ls ds \<longleftrightarrow> code_tokens (tokenize ls) = concat (map decl_tokens ds)"

subsection \<open>Version suffixes\<close>

definition version_suffixes :: "string list" where
  "version_suffixes = [''CL_API_SUFFIX__VERSION_2_0'', ''CL_API_SUFFIX__VERSION_2_1'']"

fun is_suffix_word :: "token \<Rightarrow> bool" where
  "is_suffix_word (Word w) = (take 15 w = ''CL_API_SUFFIX__'')"
| "is_suffix_word t = False"

subsection \<open>Counting\<close>

text \<open>
  A count \<open>n\<close> is about a stated figure \<open>k\<close> when it differs from it by at most a fifth
  of the figure.
\<close>

definition about :: "nat \<Rightarrow> nat \<Rightarrow> bool" where
  "about k n \<longleftrightarrow> 5 * (if n \<le> k then k - n else n - k) \<le> k"

subsection \<open>The types a declaration mentions\<close>

fun param_types :: "param \<Rightarrow> ctype list" where
  "param_types (Plain t n) = [t]"
| "param_types (FunPtr r conv n args) = r # map fst args"

fun param_name :: "param \<Rightarrow> string" where
  "param_name (Plain t n) = n"
| "param_name (FunPtr r conv n args) = n"

definition mentioned_types :: "decl \<Rightarrow> string list" where
  "mentioned_types d = map base (ret_type d # concat (map param_types (params d)))"

fun word_of :: "token \<Rightarrow> string list" where
  "word_of (Word w) = [w]"
| "word_of t = []"

definition structural_words :: "string list" where
  "structural_words = [''extern'', ''CL_API_ENTRY'', ''CL_API_CALL'', ''CL_CALLBACK'', ''const'']"

text \<open>
  The words of a token stream that are neither part of the fixed frame of a declaration
  nor the name or the version suffix of one of \<open>ds\<close>.
\<close>

definition type_words :: "decl list \<Rightarrow> token list \<Rightarrow> string list" where
  "type_words ds ts =
     filter (\<lambda>w. w \<notin> set structural_words \<and> w \<notin> set (map fname ds)
                 \<and> w \<notin> set (map version_suffix ds))
       (concat (map word_of ts))"

subsection \<open>Tokens that would make the file more than a list of declarations\<close>

definition body_tokens :: "token list" where
  "body_tokens =
     [Punct (CHR ''{''), Punct (CHR ''}''), Punct (CHR ''=''), Unterminated,
      Word ''if'', Word ''else'', Word ''while'', Word ''for'', Word ''do'', Word ''switch'',
      Word ''case'', Word ''default'', Word ''return'', Word ''goto'', Word ''break'',
      Word ''continue'']"

definition defining_tokens :: "token list" where
  "defining_tokens =
     [Punct (CHR ''#''), Word ''typedef'', Word ''struct'', Word ''union'', Word ''enum'',
      Punct (CHR ''{''), Punct (CHR ''}''), Punct (CHR ''='')]"

subsection \<open>Status reporting\<close>

text \<open>
  A declaration reports a status either as its return value, of type \<open>cl_int\<close>, or
  through an out-parameter \<open>cl_int * /* errcode_ret */\<close>.
\<close>

definition errcode_slot :: param where
  "errcode_slot = Plain (ptr ''cl_int'') ''errcode_ret''"

definition returns_status :: "decl \<Rightarrow> bool" where
  "returns_status d \<longleftrightarrow> ret_type d = val ''cl_int''"

definition has_errcode_ret :: "decl \<Rightarrow> bool" where
  "has_errcode_ret d \<longleftrightarrow> errcode_slot \<in> set (params d)"

definition names_errcode :: "decl \<Rightarrow> bool" where
  "names_errcode d \<longleftrightarrow> ''errcode_ret'' \<in> set (map param_name (params d))"

definition has_status_channel :: "decl \<Rightarrow> bool" where
  "has_status_channel d \<longleftrightarrow> returns_status d \<or> has_errcode_ret d"

text \<open>
  Modelled from the spec: the typedefs of the object handles are not part of this file.
  The specification speaks of queue, memory object, kernel and event handles, of contexts
  and devices, and of samplers and programs as the objects that creation functions
  return; each is a named type passed and returned by value.
\<close>

definition handle_types :: "string list" where
  "handle_types =
     [''cl_context'', ''cl_device_id'', ''cl_command_queue'', ''cl_mem'', ''cl_kernel'',
      ''cl_event'', ''cl_sampler'', ''cl_program'']"

definition returns_handle :: "decl \<Rightarrow> bool" where
  "returns_handle d \<longleftrightarrow>
     \<not> is_const (ret_type d) \<and> derivs (ret_type d) = [] \<and> base (ret_type d) \<in> set handle_types"

subsection \<open>The functional groups of the specification\<close>

text \<open>
  The groups as the specification lists them: queue creation, shared virtual memory
  management, kernel cloning, sub-group introspection, each by the names given for it,
  and the asynchronous SVM operations, the family \<open>clEnqueueSVM*\<close>.
\<close>

definition advertised :: "string \<Rightarrow> bool" where
  "advertised n \<longleftrightarrow>
     n \<in> set [''clCreateCommandQueueWithProperties'', ''clSVMAlloc'', ''clSVMFree'',
              ''clSetKernelArgSVMPointer'', ''clCloneKernel'', ''clGetKernelSubGroupInfo'']
     \<or> take 12 n = ''clEnqueueSVM''"

subsection \<open>Lines\<close>

definition line_tokens :: "string \<Rightarrow> token list" where
  "line_tokens l = run Code (l @ [newline])"

datatype line_kind = Blank | CommentOnly | CodeLine

definition kind_of_tokens :: "token list \<Rightarrow> line_kind" where
  "kind_of_tokens ts =
     (if ts = [] then Blank else if code_tokens ts = [] then CommentOnly else CodeLine)"

definition kind_of_line :: "string \<Rightarrow> line_kind" where
  "kind_of_line l = kind_of_tokens (line_tokens l)"

text \<open>The numbers of blank lines, of comment lines and of lines that carry code.\<close>

fun tally :: "nat \<Rightarrow> nat \<Rightarrow> nat \<Rightarrow> line_kind list \<Rightarrow> nat \<times> nat \<times> nat" where
  "tally b c d [] = (b, c, d)"
| "tally b c d (Blank # ks) = tally (b + 1) c d ks"
| "tally b c d (CommentOnly # ks) = tally b (c + 1) d ks"
| "tally b c d (CodeLine # ks) = tally b c (d + 1) ks"

definition kind_counts :: "string list \<Rightarrow> nat \<times> nat \<times> nat" where
  "kind_counts ls = tally 0 0 0 (map kind_of_line ls)"


section \<open>The file consists of its declarations\<close>

text \<open>
  The header, read token by token, is the twenty declarations of \<open>new21_decls\<close> and
  nothing else. Every later statement about the declarations is thereby a statement
  about the text of the file.
\<close>

lemma new21_h_declares: "declares new21_h new21_decls"
  unfolding declares_def by code_simp

lemma filter_code_tokens:
  assumes "\<And>s. \<not> P (LineComment s)"
  shows "filter P (code_tokens ts) = filter P ts"
proof -
  have key: "(\<not> is_line_comment t \<and> P t) = P t" for t
    using assms by (cases t) simp_all
  show ?thesis
    by (simp add: code_tokens_def key)
qed

lemma new21_h_filter:
  assumes "\<And>s. \<not> P (LineComment s)"
  shows "filter P (tokenize new21_h) = filter P (concat (map decl_tokens new21_decls))"
proof -
  have "filter P (tokenize new21_h) = filter P (code_tokens (tokenize new21_h))"
    using filter_code_tokens [of P, OF assms] by simp
  also have "\<dots> = filter P (concat (map decl_tokens new21_decls))"
    using new21_h_declares by (simp add: declares_def)
  finally show ?thesis .
qed

lemma words_code_tokens: "concat (map word_of (code_tokens ts)) = concat (map word_of ts)"
proof (induction ts)
  case Nil
  show ?case by (simp add: code_tokens_def)
next
  case (Cons t ts)
  then show ?case by (cases t) (simp_all add: code_tokens_def)
qed

lemma new21_h_words:
  "concat (map word_of (tokenize new21_h))
     = concat (map word_of (concat (map decl_tokens new21_decls)))"
proof -
  have "concat (map word_of (tokenize new21_h))
          = concat (map word_of (code_tokens (tokenize new21_h)))"
    by (simp add: words_code_tokens)
  also have "\<dots> = concat (map word_of (concat (map decl_tokens new21_decls)))"
    using new21_h_declares by (simp add: declares_def)
  finally show ?thesis .
qed

lemma new21_h_lines:
  "concat (map (\<lambda>l. code_tokens (line_tokens l)) new21_h)
     = concat (map decl_tokens new21_decls)"
  by code_simp

lemma new21_h_kinds:
  "kind_counts new21_h = (24, 21, 121)"
  by code_simp

lemma new21_h_length: "length new21_h = 166"
  by code_simp

lemma new21_decls_length: "length new21_decls = 20"
  by (simp add: new21_decls_def)

lemma decl_tokens_frame:
  "hd (decl_tokens d) = Word ''extern'' \<and> last (decl_tokens d) = Punct (CHR '';'')"
  by (simp add: decl_tokens_def)


section \<open>The claims\<close>

subsection \<open>Versioning\<close>

text \<open>
  C1. Every function declared in the file is tagged with the API revision that introduced
  it, 2.0 or 2.1: the signature of every declaration ends with exactly one version suffix,
  \<open>CL_API_SUFFIX__VERSION_2_0\<close> or \<open>CL_API_SUFFIX__VERSION_2_1\<close>. The file consists of
  the declarations of \<open>new21_decls\<close>; for each of them the suffix is one of the two, it is
  the only suffix word among the tokens of the declaration, and it stands last before the
  closing semicolon; the file has as many suffix words as declarations.
\<close>

theorem every_declaration_version_suffix:
  "declares new21_h new21_decls
   \<and> (\<forall>d \<in> set new21_decls.
         version_suffix d \<in> set version_suffixes
         \<and> filter is_suffix_word (decl_tokens d) = [Word (version_suffix d)]
         \<and> take 2 (rev (decl_tokens d)) = [Punct (CHR '';''), Word (version_suffix d)])
   \<and> length (filter is_suffix_word (tokenize new21_h)) = length new21_decls"
proof (intro conjI)
  show "declares new21_h new21_decls"
    by (rule new21_h_declares)
  show "\<forall>d \<in> set new21_decls.
         version_suffix d \<in> set version_suffixes
         \<and> filter is_suffix_word (decl_tokens d) = [Word (version_suffix d)]
         \<and> take 2 (rev (decl_tokens d)) = [Punct (CHR '';''), Word (version_suffix d)]"
    by code_simp
  have sfx: "filter is_suffix_word (tokenize new21_h)
                = filter is_suffix_word (concat (map decl_tokens new21_decls))"
    by (rule new21_h_filter) simp
  show "length (filter is_suffix_word (tokenize new21_h)) = length new21_decls"
    unfolding sfx by code_simp
qed

theorem every_declaration_version_suffix_witness:
  "clCloneKernel \<in> set new21_decls
   \<and> version_suffix clCloneKernel = ''CL_API_SUFFIX__VERSION_2_1''
   \<and> version_suffix clCloneKernel \<in> set version_suffixes
   \<and> filter is_suffix_word (decl_tokens clCloneKernel) = [Word ''CL_API_SUFFIX__VERSION_2_1'']
   \<and> take 2 (rev (decl_tokens clCloneKernel))
        = [Punct (CHR '';''), Word ''CL_API_SUFFIX__VERSION_2_1'']"
proof -
  have m: "clCloneKernel \<in> set new21_decls"
    by (simp add: new21_decls_def)
  have "\<forall>d \<in> set new21_decls.
         version_suffix d \<in> set version_suffixes
         \<and> filter is_suffix_word (decl_tokens d) = [Word (version_suffix d)]
         \<and> take 2 (rev (decl_tokens d)) = [Punct (CHR '';''), Word (version_suffix d)]"
    by (rule conjunct1 [OF conjunct2 [OF every_declaration_version_suffix]])
  from this m have
    "version_suffix clCloneKernel \<in> set version_suffixes
     \<and> filter is_suffix_word (decl_tokens clCloneKernel) = [Word (version_suffix clCloneKernel)]
     \<and> take 2 (rev (decl_tokens clCloneKernel))
          = [Punct (CHR '';''), Word (version_suffix clCloneKernel)]"
    by (rule bspec)
  moreover have "version_suffix clCloneKernel = ''CL_API_SUFFIX__VERSION_2_1''"
    by (simp add: clCloneKernel_def)
  ultimately show ?thesis
    using m by simp
qed

subsection \<open>The number of declarations\<close>

text \<open>
  C2 as stated: the file has approximately 16 function declarations. It has 20, a quarter
  more than the stated figure.
\<close>

theorem about_sixteen_counterexample:
  "length new21_decls = 20 \<and> \<not> about 16 (length new21_decls)"
  by (simp add: new21_decls_def about_def)

text \<open>
  C2, amended: the file is a flat list of exactly 20 function declarations, one for each
  \<open>extern\<close> of the text, with distinct names; no declaration mentions the name of a
  declared function among its types, so that none depends on another; and the file has no
  initialiser and no body, hence no object of its own.
\<close>

theorem twenty_flat_declarations:
  "declares new21_h new21_decls
   \<and> length new21_decls = 20
   \<and> length (filter (\<lambda>t. t = Word ''extern'') (tokenize new21_h)) = 20
   \<and> distinct (map fname new21_decls)
   \<and> (\<forall>d \<in> set new21_decls. set (mentioned_types d) \<inter> set (map fname new21_decls) = {})
   \<and> filter (\<lambda>t. t \<in> set body_tokens) (tokenize new21_h) = []"
proof (intro conjI)
  show "declares new21_h new21_decls"
    by (rule new21_h_declares)
  show "length new21_decls = 20"
    by (rule new21_decls_length)
  have ext: "filter (\<lambda>t. t = Word ''extern'') (tokenize new21_h)
               = filter (\<lambda>t. t = Word ''extern'') (concat (map decl_tokens new21_decls))"
    by (rule new21_h_filter) simp
  show "length (filter (\<lambda>t. t = Word ''extern'') (tokenize new21_h)) = 20"
    unfolding ext by code_simp
  show "distinct (map fname new21_decls)"
    by code_simp
  show "\<forall>d \<in> set new21_decls. set (mentioned_types d) \<inter> set (map fname new21_decls) = {}"
    by code_simp
  have body: "filter (\<lambda>t. t \<in> set body_tokens) (tokenize new21_h)
                = filter (\<lambda>t. t \<in> set body_tokens) (concat (map decl_tokens new21_decls))"
    by (rule new21_h_filter) (simp add: body_tokens_def)
  show "filter (\<lambda>t. t \<in> set body_tokens) (tokenize new21_h) = []"
    unfolding body by code_simp
qed

theorem twenty_flat_declarations_witness:
  "clEnqueueSVMFree \<in> set new21_decls
   \<and> set (mentioned_types clEnqueueSVMFree) \<inter> set (map fname new21_decls) = {}"
proof -
  have m: "clEnqueueSVMFree \<in> set new21_decls"
    by (simp add: new21_decls_def)
  have "\<forall>d \<in> set new21_decls. set (mentioned_types d) \<inter> set (map fname new21_decls) = {}"
    using twenty_flat_declarations by (elim conjE)
  from this m have "set (mentioned_types clEnqueueSVMFree) \<inter> set (map fname new21_decls) = {}"
    by (rule bspec)
  with m show ?thesis
    by (rule conjI)
qed


subsection \<open>Status reporting\<close>

text \<open>
  C3. Most declared operations reserve a status channel: 18 of the 20 declarations, more
  than half, either return \<open>cl_int\<close> or take a parameter \<open>cl_int * /* errcode_ret */\<close>;
  and the file defines no error code: it has no preprocessor directive, no \<open>enum\<close> or
  other type definition, no initialiser.
\<close>

theorem most_declarations_status_channel:
  "length new21_decls = 20
   \<and> length (filter has_status_channel new21_decls) = 18
   \<and> length new21_decls < 2 * length (filter has_status_channel new21_decls)
   \<and> filter (\<lambda>t. t \<in> set defining_tokens) (tokenize new21_h) = []"
proof (intro conjI)
  show "length new21_decls = 20"
    by (rule new21_decls_length)
  show n: "length (filter has_status_channel new21_decls) = 18"
    by code_simp
  show "length new21_decls < 2 * length (filter has_status_channel new21_decls)"
    unfolding n new21_decls_length by simp
  have defs: "filter (\<lambda>t. t \<in> set defining_tokens) (tokenize new21_h)
                = filter (\<lambda>t. t \<in> set defining_tokens) (concat (map decl_tokens new21_decls))"
    by (rule new21_h_filter) (simp add: defining_tokens_def)
  show "filter (\<lambda>t. t \<in> set defining_tokens) (tokenize new21_h) = []"
    unfolding defs by code_simp
qed

subsection \<open>Functional groups\<close>

text \<open>
  C4 as stated: the declared entry points cover exactly the advertised functional groups.
  \<open>clCreatePipe\<close> is declared and belongs to none of them.
\<close>

theorem advertised_groups_counterexample:
  "''clCreatePipe'' \<in> set (map fname new21_decls) \<and> \<not> advertised ''clCreatePipe''"
  by (simp add: new21_decls_def clCreatePipe_def advertised_def)

text \<open>
  C4, amended: the declared entry points include every advertised functional group, that
  is, \<open>clCreateCommandQueueWithProperties\<close>, \<open>clSVMAlloc\<close>, \<open>clSVMFree\<close>,
  \<open>clSetKernelArgSVMPointer\<close>, \<open>clCloneKernel\<close>, \<open>clGetKernelSubGroupInfo\<close> and the six
  operations \<open>clEnqueueSVM*\<close>; the file declares eight entry points more, for the default
  device queue, timers, pipes, samplers, programs from IL and kernel execution info.
\<close>

theorem advertised_groups_declared:
  "declares new21_h new21_decls
   \<and> filter advertised (map fname new21_decls)
       = [''clCreateCommandQueueWithProperties'', ''clSVMAlloc'', ''clSVMFree'',
          ''clCloneKernel'', ''clSetKernelArgSVMPointer'', ''clGetKernelSubGroupInfo'',
          ''clEnqueueSVMFree'', ''clEnqueueSVMMemcpy'', ''clEnqueueSVMMemFill'',
          ''clEnqueueSVMMap'', ''clEnqueueSVMUnmap'', ''clEnqueueSVMMigrateMem'']
   \<and> filter (\<lambda>n. \<not> advertised n) (map fname new21_decls)
       = [''clSetDefaultDeviceCommandQueue'', ''clGetDeviceAndHostTimer'', ''clGetHostTimer'',
          ''clCreatePipe'', ''clGetPipeInfo'', ''clCreateSamplerWithProperties'',
          ''clCreateProgramWithIL'', ''clSetKernelExecInfo'']"
proof (intro conjI)
  show "declares new21_h new21_decls"
    by (rule new21_h_declares)
  show "filter advertised (map fname new21_decls)
       = [''clCreateCommandQueueWithProperties'', ''clSVMAlloc'', ''clSVMFree'',
          ''clCloneKernel'', ''clSetKernelArgSVMPointer'', ''clGetKernelSubGroupInfo'',
          ''clEnqueueSVMFree'', ''clEnqueueSVMMemcpy'', ''clEnqueueSVMMemFill'',
          ''clEnqueueSVMMap'', ''clEnqueueSVMUnmap'', ''clEnqueueSVMMigrateMem'']"
    by code_simp
  show "filter (\<lambda>n. \<not> advertised n) (map fname new21_decls)
       = [''clSetDefaultDeviceCommandQueue'', ''clGetDeviceAndHostTimer'', ''clGetHostTimer'',
          ''clCreatePipe'', ''clGetPipeInfo'', ''clCreateSamplerWithProperties'',
          ''clCreateProgramWithIL'', ''clSetKernelExecInfo'']"
    by code_simp
qed

subsection \<open>Declarations only\<close>

text \<open>
  C5. The file contains declarations only and no executable behaviour: its tokens are those
  of the declarations of \<open>new21_decls\<close>, each of which opens with \<open>extern\<close> and closes
  with a semicolon after its parameter list; no brace, initialiser or control-flow keyword
  occurs, and no preprocessor directive or definition of a data structure.
\<close>

theorem declarations_only:
  "declares new21_h new21_decls
   \<and> (\<forall>d. hd (decl_tokens d) = Word ''extern'' \<and> last (decl_tokens d) = Punct (CHR '';''))
   \<and> filter (\<lambda>t. t \<in> set body_tokens \<or> t \<in> set defining_tokens) (tokenize new21_h) = []"
proof (intro conjI)
  show "declares new21_h new21_decls"
    by (rule new21_h_declares)
  show "\<forall>d. hd (decl_tokens d) = Word ''extern'' \<and> last (decl_tokens d) = Punct (CHR '';'')"
    using decl_tokens_frame by blast
  have toks: "filter (\<lambda>t. t \<in> set body_tokens \<or> t \<in> set defining_tokens) (tokenize new21_h)
                = filter (\<lambda>t. t \<in> set body_tokens \<or> t \<in> set defining_tokens)
                    (concat (map decl_tokens new21_decls))"
    by (rule new21_h_filter) (simp add: body_tokens_def defining_tokens_def)
  show "filter (\<lambda>t. t \<in> set body_tokens \<or> t \<in> set defining_tokens) (tokenize new21_h) = []"
    unfolding toks by code_simp
qed

subsection \<open>Types\<close>

text \<open>
  C6. The file defines no entity and no type: it has no \<open>typedef\<close>, \<open>struct\<close>, \<open>union\<close>,
  \<open>enum\<close> or preprocessor directive, and every word of it that is not part of the frame of
  a declaration, a function name or a version suffix is the base of a return type or of a
  parameter type, in the order of the declarations. The 24 type names so mentioned include
  \<open>cl_context\<close>, \<open>cl_device_id\<close>, \<open>cl_command_queue\<close>, \<open>cl_mem\<close>, \<open>cl_kernel\<close>,
  \<open>cl_event\<close> and the property-list types.
\<close>

theorem no_type_defined:
  "filter (\<lambda>t. t \<in> set defining_tokens) (tokenize new21_h) = []
   \<and> type_words new21_decls (tokenize new21_h) = concat (map mentioned_types new21_decls)
   \<and> remdups (concat (map mentioned_types new21_decls))
       = [''cl_ulong'', ''cl_queue_properties'', ''cl_mem_flags'', ''cl_pipe_properties'',
          ''cl_mem'', ''cl_pipe_info'', ''cl_svm_mem_flags'', ''cl_sampler'',
          ''cl_sampler_properties'', ''cl_program'', ''cl_context'', ''cl_kernel_exec_info'',
          ''cl_kernel'', ''cl_device_id'', ''cl_kernel_sub_group_info'', ''cl_bool'',
          ''cl_map_flags'', ''cl_int'', ''cl_command_queue'', ''void'', ''size_t'',
          ''cl_mem_migration_flags'', ''cl_uint'', ''cl_event'']"
proof (intro conjI)
  have defs: "filter (\<lambda>t. t \<in> set defining_tokens) (tokenize new21_h)
                = filter (\<lambda>t. t \<in> set defining_tokens) (concat (map decl_tokens new21_decls))"
    by (rule new21_h_filter) (simp add: defining_tokens_def)
  show "filter (\<lambda>t. t \<in> set defining_tokens) (tokenize new21_h) = []"
    unfolding defs by code_simp
  show "type_words new21_decls (tokenize new21_h) = concat (map mentioned_types new21_decls)"
    unfolding type_words_def new21_h_words by code_simp
  show "remdups (concat (map mentioned_types new21_decls))
       = [''cl_ulong'', ''cl_queue_properties'', ''cl_mem_flags'', ''cl_pipe_properties'',
          ''cl_mem'', ''cl_pipe_info'', ''cl_svm_mem_flags'', ''cl_sampler'',
          ''cl_sampler_properties'', ''cl_program'', ''cl_context'', ''cl_kernel_exec_info'',
          ''cl_kernel'', ''cl_device_id'', ''cl_kernel_sub_group_info'', ''cl_bool'',
          ''cl_map_flags'', ''cl_int'', ''cl_command_queue'', ''void'', ''size_t'',
          ''cl_mem_migration_flags'', ''cl_uint'', ''cl_event'']"
    by code_simp
qed

subsection \<open>Lines\<close>

text \<open>
  C7. The file is roughly 167 lines long and none of its lines holds logic of its own: it
  has 166 lines, of which 24 are blank, 21 hold a line comment only, and the other 121,
  read line by line, hold the tokens of the twenty declarations and nothing else; no
  brace, initialiser or control-flow keyword occurs.
\<close>

theorem lines_hold_declarations_only:
  "length new21_h = 166
   \<and> about 167 (length new21_h)
   \<and> kind_counts new21_h = (24, 21, 121)
   \<and> concat (map (\<lambda>l. code_tokens (line_tokens l)) new21_h)
       = concat (map decl_tokens new21_decls)
   \<and> filter (\<lambda>t. t \<in> set body_tokens) (tokenize new21_h) = []"
proof (intro conjI)
  show "length new21_h = 166"
    by (rule new21_h_length)
  show "about 167 (length new21_h)"
    unfolding new21_h_length by (simp add: about_def)
  show "kind_counts new21_h = (24, 21, 121)"
    by (rule new21_h_kinds)
  show "concat (map (\<lambda>l. code_tokens (line_tokens l)) new21_h)
          = concat (map decl_tokens new21_decls)"
    by (rule new21_h_lines)
  have body: "filter (\<lambda>t. t \<in> set body_tokens) (tokenize new21_h)
                = filter (\<lambda>t. t \<in> set body_tokens) (concat (map decl_tokens new21_decls))"
    by (rule new21_h_filter) (simp add: body_tokens_def)
  show "filter (\<lambda>t. t \<in> set body_tokens) (tokenize new21_h) = []"
    unfolding body by code_simp
qed

subsection \<open>The two ways of reporting an error\<close>

text \<open>
  C8. The two error-reporting mechanisms exclude each other and follow the return type:
  the declarations that return an object handle are \<open>clCreateCommandQueueWithProperties\<close>,
  \<open>clCreatePipe\<close>, \<open>clCreateSamplerWithProperties\<close>, \<open>clCreateProgramWithIL\<close> and
  \<open>clCloneKernel\<close>; each of them takes \<open>cl_int * /* errcode_ret */\<close> as its last parameter;
  and no declaration that returns \<open>cl_int\<close> has a parameter named \<open>errcode_ret\<close>.
\<close>

theorem handle_errcode_last_status_none:
  "map fname (filter returns_handle new21_decls)
     = [''clCreateCommandQueueWithProperties'', ''clCreatePipe'',
        ''clCreateSamplerWithProperties'', ''clCreateProgramWithIL'', ''clCloneKernel'']
   \<and> (\<forall>d \<in> set new21_decls.
         (returns_handle d \<longrightarrow>
            params d \<noteq> [] \<and> last (params d) = errcode_slot \<and> \<not> returns_status d)
         \<and> (returns_status d \<longrightarrow> \<not> names_errcode d \<and> \<not> returns_handle d))"
proof (intro conjI)
  show "map fname (filter returns_handle new21_decls)
     = [''clCreateCommandQueueWithProperties'', ''clCreatePipe'',
        ''clCreateSamplerWithProperties'', ''clCreateProgramWithIL'', ''clCloneKernel'']"
    by code_simp
  show "\<forall>d \<in> set new21_decls.
         (returns_handle d \<longrightarrow>
            params d \<noteq> [] \<and> last (params d) = errcode_slot \<and> \<not> returns_status d)
         \<and> (returns_status d \<longrightarrow> \<not> names_errcode d \<and> \<not> returns_handle d)"
    by code_simp
qed

theorem handle_errcode_last_status_none_witness:
  "clCloneKernel \<in> set new21_decls \<and> returns_handle clCloneKernel
   \<and> last (params clCloneKernel) = Plain (ptr ''cl_int'') ''errcode_ret''
   \<and> clGetHostTimer \<in> set new21_decls \<and> returns_status clGetHostTimer
   \<and> \<not> names_errcode clGetHostTimer"
proof -
  have all: "\<forall>d \<in> set new21_decls.
         (returns_handle d \<longrightarrow>
            params d \<noteq> [] \<and> last (params d) = errcode_slot \<and> \<not> returns_status d)
         \<and> (returns_status d \<longrightarrow> \<not> names_errcode d \<and> \<not> returns_handle d)"
    by (rule conjunct2 [OF handle_errcode_last_status_none])
  have m1: "clCloneKernel \<in> set new21_decls" and m2: "clGetHostTimer \<in> set new21_decls"
    by (simp_all add: new21_decls_def)
  have h: "returns_handle clCloneKernel"
    by (simp add: returns_handle_def clCloneKernel_def handle_types_def)
  have r: "returns_status clGetHostTimer"
    by (simp add: returns_status_def clGetHostTimer_def)
  from all m1 h have "last (params clCloneKernel) = errcode_slot"
    by blast
  moreover from all m2 r have "\<not> names_errcode clGetHostTimer"
    by blast
  ultimately show ?thesis
    using m1 m2 h r by (simp add: errcode_slot_def)
qed

subsection \<open>Operations without a status\<close>

text \<open>
  C9. \<open>clSVMAlloc\<close> and \<open>clSVMFree\<close> are the only declared operations with no
  error-reporting channel: \<open>clSVMAlloc\<close> returns \<open>void *\<close> and \<open>clSVMFree\<close> returns
  \<open>void\<close>, neither has a parameter named \<open>errcode_ret\<close>, and every other declaration
  either returns \<open>cl_int\<close> or takes \<open>cl_int * /* errcode_ret */\<close>.
\<close>

theorem only_svm_alloc_free_without_status:
  "map fname (filter (\<lambda>d. \<not> has_status_channel d) new21_decls) = [''clSVMAlloc'', ''clSVMFree'']
   \<and> filter (\<lambda>d. \<not> has_status_channel d) new21_decls = [clSVMAlloc, clSVMFree]
   \<and> ret_type clSVMAlloc = ptr ''void'' \<and> \<not> names_errcode clSVMAlloc
   \<and> ret_type clSVMFree = val ''void'' \<and> \<not> names_errcode clSVMFree"
proof (intro conjI)
  show "map fname (filter (\<lambda>d. \<not> has_status_channel d) new21_decls)
          = [''clSVMAlloc'', ''clSVMFree'']"
    by code_simp
  show "filter (\<lambda>d. \<not> has_status_channel d) new21_decls = [clSVMAlloc, clSVMFree]"
    by code_simp
  show "ret_type clSVMAlloc = ptr ''void''"
    by (simp add: clSVMAlloc_def)
  show "\<not> names_errcode clSVMAlloc"
    by (simp add: names_errcode_def clSVMAlloc_def)
  show "ret_type clSVMFree = val ''void''"
    by (simp add: clSVMFree_def)
  show "\<not> names_errcode clSVMFree"
    by (simp add: names_errcode_def clSVMFree_def)
qed

end
